theory Spec2Isabelle
  imports Complex_Main "HOL-Library.Multiset"
begin

section \<open>Palette categorizer of \<^verbatim>\<open>css-mimic/scripts/analyze_colors.py\<close>\<close>

text \<open>
  A colour is a Python tuple of three integers (\<^verbatim>\<open>tuple(map(int, color))\<close> in
  \<^verbatim>\<open>extract_palette\<close>); Python integers are unbounded, so the channels are \<open>int\<close>.
  Python's float arithmetic (\<^verbatim>\<open>/\<close>, \<^verbatim>\<open>**\<close>, the comparisons with \<^verbatim>\<open>0.3\<close> and
  \<^verbatim>\<open>0.7\<close>) is modelled by exact arithmetic on \<open>real\<close>; rounding is not modelled.
  Lemma \<open>saturation_gap\<close> below shows that on channels in \<open>0..255\<close> a saturation is either
  exactly \<open>3/10\<close> or at least \<open>1/2550\<close> away from it, so that the test
  \<^verbatim>\<open>saturation > 0.3\<close> cannot be changed by rounding there.
\<close>

type_synonym color = "int \<times> int \<times> int"

subsection \<open>\<^verbatim>\<open>is_grayscale\<close> (lines 34-37)\<close>

definition is_grayscale :: "color \<Rightarrow> int \<Rightarrow> bool" where
  "is_grayscale rgb threshold =
     (case rgb of (r, g, b) \<Rightarrow>
        \<bar>r - g\<bar> < threshold \<and> \<bar>g - b\<bar> < threshold \<and> \<bar>r - b\<bar> < threshold)"

text \<open>The default value of the parameter \<^verbatim>\<open>threshold\<close>.\<close>

definition default_threshold :: int where
  "default_threshold = 10"

subsection \<open>\<^verbatim>\<open>categorize_colors\<close> (lines 82-108)\<close>

text \<open>
  The dictionary \<^verbatim>\<open>categorized\<close> has the three fixed keys \<^verbatim>\<open>'primary'\<close>,
  \<^verbatim>\<open>'neutral'\<close> and \<^verbatim>\<open>'accent'\<close>, each holding a list: a record of three lists.
\<close>

record palette =
  primary :: "color list"
  neutral :: "color list"
  accent :: "color list"

text \<open>Lines 95-98: the saturation of a colour, \<open>0\<close> when the largest channel is not positive.\<close>

definition saturation :: "color \<Rightarrow> real" where
  "saturation rgb =
     (case rgb of (r, g, b) \<Rightarrow>
        let max_val = max r (max g b);
            min_val = min r (min g b)
        in if max_val > 0 then real_of_int (max_val - min_val) / real_of_int max_val else 0)"

text \<open>The body of the \<^verbatim>\<open>for\<close> loop (lines 91-106): one colour is appended to one list.\<close>

definition categorize_step :: "palette \<Rightarrow> color \<Rightarrow> palette" where
  "categorize_step categorized rgb =
     (if is_grayscale rgb default_threshold
      then categorized\<lparr>neutral := neutral categorized @ [rgb]\<rparr>
      else if saturation rgb > 0.3
        then (if length (primary categorized) < 2
              then categorized\<lparr>primary := primary categorized @ [rgb]\<rparr>
              else categorized\<lparr>accent := accent categorized @ [rgb]\<rparr>)
        else categorized\<lparr>neutral := neutral categorized @ [rgb]\<rparr>)"

fun categorize_loop :: "palette \<Rightarrow> color list \<Rightarrow> palette" where
  "categorize_loop categorized [] = categorized"
| "categorize_loop categorized (rgb # colors) =
     categorize_loop (categorize_step categorized rgb) colors"

definition categorize_colors :: "color list \<Rightarrow> palette" where
  "categorize_colors colors =
     categorize_loop \<lparr>primary = [], neutral = [], accent = []\<rparr> colors"

text \<open>
  The same loop as a relation, one rule for each branch of the loop body: \<open>loop_body c rgb c'\<close>
  holds when the branch taken on \<open>rgb\<close> in state \<open>c\<close> leaves the state \<open>c'\<close>, and
  \<open>runs c colors c'\<close> when the whole loop started in \<open>c\<close> ends in \<open>c'\<close>.
\<close>

inductive loop_body :: "palette \<Rightarrow> color \<Rightarrow> palette \<Rightarrow> bool" where
  gray: "is_grayscale rgb default_threshold \<Longrightarrow>
     loop_body c rgb (c\<lparr>neutral := neutral c @ [rgb]\<rparr>)"
| to_primary: "\<not> is_grayscale rgb default_threshold \<Longrightarrow> saturation rgb > 0.3 \<Longrightarrow>
     length (primary c) < 2 \<Longrightarrow> loop_body c rgb (c\<lparr>primary := primary c @ [rgb]\<rparr>)"
| to_accent: "\<not> is_grayscale rgb default_threshold \<Longrightarrow> saturation rgb > 0.3 \<Longrightarrow>
     \<not> length (primary c) < 2 \<Longrightarrow> loop_body c rgb (c\<lparr>accent := accent c @ [rgb]\<rparr>)"
| dull: "\<not> is_grayscale rgb default_threshold \<Longrightarrow> \<not> saturation rgb > 0.3 \<Longrightarrow>
     loop_body c rgb (c\<lparr>neutral := neutral c @ [rgb]\<rparr>)"

inductive runs :: "palette \<Rightarrow> color list \<Rightarrow> palette \<Rightarrow> bool" where
  runs_nil: "runs c [] c"
| runs_cons: "loop_body c rgb c' \<Longrightarrow> runs c' colors c'' \<Longrightarrow> runs c (rgb # colors) c''"

text \<open>
  The colours that reach one of the two inner branches (lines 101-104): not grayscale, and
  saturation above \<open>0.3\<close>.
\<close>

definition vivid :: "color \<Rightarrow> bool" where
  "vivid rgb = (\<not> is_grayscale rgb default_threshold \<and> saturation rgb > 0.3)"

subsection \<open>\<^verbatim>\<open>get_luminance\<close> (lines 25-31)\<close>

text \<open>
  Lines 28-30 apply the same conditional expression to each of the three channels; it is
  written once here. The base of the power is positive on that branch (\<open>x > 0.03928\<close>), where
  Python's \<^verbatim>\<open>**\<close> on floats is the real power \<open>powr\<close>.
\<close>

definition linearize :: "real \<Rightarrow> real" where
  "linearize x = (if x \<le> 0.03928 then x / 12.92 else ((x + 0.055) / 1.055) powr 2.4)"

definition get_luminance :: "color \<Rightarrow> real" where
  "get_luminance rgb =
     (case rgb of (r0, g0, b0) \<Rightarrow>
        let r = real_of_int r0 / 255.0;
            g = real_of_int g0 / 255.0;
            b = real_of_int b0 / 255.0;
            r = linearize r;
            g = linearize g;
            b = linearize b
        in 0.2126 * r + 0.7152 * g + 0.0722 * b)"

subsection \<open>\<^verbatim>\<open>rgb_to_hex\<close> (lines 20-22)\<close>

text \<open>
  The format \<^verbatim>\<open>{:02x}\<close> of a Python integer: lower-case hexadecimal digits, padded with zeros to
  width 2; a negative number is a minus sign followed by the digits of its absolute value (the
  sign counts for the width, so nothing is padded then).
\<close>

definition hex_digit :: "nat \<Rightarrow> char" where
  "hex_digit d = ''0123456789abcdef'' ! d"

fun to_hex :: "nat \<Rightarrow> string" where
  "to_hex n = (if n < 16 then [hex_digit n] else to_hex (n div 16) @ [hex_digit (n mod 16)])"

declare to_hex.simps [simp del]

definition format_02x :: "int \<Rightarrow> string" where
  "format_02x n =
     (if n < 0 then CHR ''-'' # to_hex (nat (- n))
      else let digits = to_hex (nat n)
           in if length digits < 2 then CHR ''0'' # digits else digits)"

definition rgb_to_hex :: "color \<Rightarrow> string" where
  "rgb_to_hex rgb =
     (case rgb of (r, g, b) \<Rightarrow> ''#'' @ format_02x r @ format_02x g @ format_02x b)"

subsection \<open>\<^verbatim>\<open>generate_css_variables\<close> (lines 111-143)\<close>

text \<open>
  \<open>str_nat\<close> is the decimal text of the index in an f-string (\<^verbatim>\<open>f"...{i}"\<close>; the index of
  \<^verbatim>\<open>enumerate(..., 1)\<close> is a positive integer), \<open>join\<close> is \<^verbatim>\<open>sep.join(list)\<close>, and
  \<open>enumerate 1 xs\<close> of the list library is \<^verbatim>\<open>enumerate(xs, 1)\<close>. Python's \<^verbatim>\<open>sorted\<close> is stable, as
  is \<open>sort_key\<close>.
\<close>

definition dec_digit :: "nat \<Rightarrow> char" where
  "dec_digit d = ''0123456789'' ! d"

fun str_nat :: "nat \<Rightarrow> string" where
  "str_nat n = (if n < 10 then [dec_digit n] else str_nat (n div 10) @ [dec_digit (n mod 10)])"

declare str_nat.simps [simp del]

fun join :: "string \<Rightarrow> string list \<Rightarrow> string" where
  "join sep [] = []"
| "join sep [x] = x"
| "join sep (x # y # ys) = x @ sep @ join sep (y # ys)"

definition newline :: string where
  "newline = [CHR 0x0A]"

text \<open>The list \<^verbatim>\<open>css_vars\<close> when line 143 is reached.\<close>

definition css_vars :: "palette \<Rightarrow> string list" where
  "css_vars categorized_colors =
     [''/* Color Palette - Generated from screenshot */'', '':root {''] @
     map (\<lambda>(i, rgb).
        let hex_color = rgb_to_hex rgb
        in ''  --color-primary-'' @ str_nat i @ '': '' @ hex_color @ '';'')
      (enumerate 1 (primary categorized_colors)) @
     (let neutrals = sort_key get_luminance (neutral categorized_colors)
      in map (\<lambda>(i, rgb).
           let hex_color = rgb_to_hex rgb;
               luminance = get_luminance rgb;
               name = (if luminance > 0.7 then ''light-'' @ str_nat i
                       else if luminance < 0.3 then ''dark-'' @ str_nat i
                       else ''neutral-'' @ str_nat i)
           in ''  --color-'' @ name @ '': '' @ hex_color @ '';'')
         (enumerate 1 neutrals)) @
     map (\<lambda>(i, rgb).
        let hex_color = rgb_to_hex rgb
        in ''  --color-accent-'' @ str_nat i @ '': '' @ hex_color @ '';'')
      (enumerate 1 (accent categorized_colors)) @
     [''}'' @ newline]"

text \<open>
  The function receives the dictionary by reference. The model returns the dictionary as it is
  after the call together with the text: \<^verbatim>\<open>sorted\<close> builds a new list, and no statement of the
  function assigns to the dictionary or to one of its lists.
\<close>

definition generate_css_variables :: "palette \<Rightarrow> palette \<times> string" where
  "generate_css_variables categorized_colors =
     (categorized_colors, join newline (css_vars categorized_colors))"

subsection \<open>\<^verbatim>\<open>generate_usage_example\<close> (lines 146-170)\<close>

text \<open>
  \<^verbatim>\<open>max(xs, key=f)\<close> and \<^verbatim>\<open>min(xs, key=f)\<close> on a non-empty list: the first element with the
  largest (smallest) key. Both calls are guarded by \<^verbatim>\<open>if categorized_colors['neutral']\<close>.
\<close>

fun max_key :: "('a \<Rightarrow> real) \<Rightarrow> 'a \<Rightarrow> 'a list \<Rightarrow> 'a" where
  "max_key key best [] = best"
| "max_key key best (x # xs) = max_key key (if key x > key best then x else best) xs"

fun min_key :: "('a \<Rightarrow> real) \<Rightarrow> 'a \<Rightarrow> 'a list \<Rightarrow> 'a" where
  "min_key key best [] = best"
| "min_key key best (x # xs) = min_key key (if key x < key best then x else best) xs"

definition generate_usage_example :: "palette \<Rightarrow> string" where
  "generate_usage_example categorized_colors =
     join newline
       ([''/* Usage Examples */'', ''body {''] @
        (case neutral categorized_colors of
           [] \<Rightarrow> []
         | x # xs \<Rightarrow>
             let bg_color = rgb_to_hex (max_key get_luminance x xs)
             in [''  background-color: var(--color-light-1, '' @ bg_color @ '');'']) @
        (case neutral categorized_colors of
           [] \<Rightarrow> []
         | x # xs \<Rightarrow>
             let text_color = rgb_to_hex (min_key get_luminance x xs)
             in [''  color: var(--color-dark-1, '' @ text_color @ '');'']) @
        [''}'' @ newline] @
        (if primary categorized_colors \<noteq> []
         then [''button, a {'', ''  background-color: var(--color-primary-1);'',
               ''  color: white;'', ''}'' @ newline]
         else []) @
        (if accent categorized_colors \<noteq> []
         then [''.highlight {'', ''  border-left: 3px solid var(--color-accent-1);'',
               ''}'' @ newline]
         else []))"

subsection \<open>\<^verbatim>\<open>main\<close> (lines 173-232)\<close>

text \<open>
  \<^verbatim>\<open>s.replace(old, new)\<close>: every occurrence of \<open>old\<close> in \<open>s\<close>, found from left to right without
  overlap, is replaced by \<open>new\<close>; with an empty \<open>old\<close>, \<open>new\<close> is put before every character and
  at the end.
\<close>

function py_replace :: "string \<Rightarrow> string \<Rightarrow> string \<Rightarrow> string" where
  "py_replace old new s =
     (if old = [] then new @ concat (map (\<lambda>c. c # new) s)
      else if s = [] then []
      else if take (length old) s = old then new @ py_replace old new (drop (length old) s)
      else hd s # py_replace old new (tl s))"
  by pat_completeness auto
termination
  by (relation "measure (\<lambda>(old, new, s). length s)") auto

declare py_replace.simps [simp del]

text \<open>
  The parsed command line, the files written (a path holds either text or a JSON object, whose
  keys are kept in the order in which \<^verbatim>\<open>json.dump\<close> writes them), and \<^verbatim>\<open>main\<close>.
  \<^verbatim>\<open>extract_palette\<close> (lines 40-79) is the work of the imaging and clustering libraries and is
  a parameter: it raises, returns \<^verbatim>\<open>None\<close> when a library is missing, or returns the colours.
  What \<^verbatim>\<open>main\<close> prints is not modelled.
\<close>

record args =
  arg_image :: string
  arg_output :: string
  arg_num_colors :: int
  arg_json :: bool

datatype content = Text string | Json "(string \<times> string list) list"

type_synonym files = "string \<rightharpoonup> content"

datatype error = Uncaught string

definition main ::
  "(string \<Rightarrow> int \<Rightarrow> error + color list option) \<Rightarrow> args \<Rightarrow> files \<Rightarrow> (error + int) \<times> files" where
  "main extract_palette a fs =
     (case extract_palette (arg_image a) (arg_num_colors a) of
        Inl e \<Rightarrow> (Inl e, fs)
      | Inr None \<Rightarrow> (Inr 1, fs)
      | Inr (Some colors) \<Rightarrow>
          let categorized = categorize_colors colors;
              (categorized, css_output) = generate_css_variables categorized;
              css_output = css_output @ newline @ generate_usage_example categorized;
              fs = fs(arg_output a \<mapsto> Text css_output);
              fs = (if arg_json a
                    then let json_output =
                               [(''primary'', map rgb_to_hex (primary categorized)),
                                (''neutral'', map rgb_to_hex (neutral categorized)),
                                (''accent'', map rgb_to_hex (accent categorized)),
                                (''all_colors'', map rgb_to_hex colors)];
                             json_file = py_replace ''.css'' ''.json'' (arg_output a)
                         in fs(json_file \<mapsto> Json json_output)
                    else fs)
          in (Inr 0, fs))"

section \<open>Properties\<close>

subsection \<open>Grayscale test\<close>

text \<open>
  C4. At the default threshold 10, a triple whose three pairwise absolute differences are all
  at most 9 is grayscale, and a triple with some pairwise absolute difference of 10 or more
  is not.
\<close>

theorem is_grayscale_default:
  "(\<bar>r - g\<bar> \<le> 9 \<and> \<bar>g - b\<bar> \<le> 9 \<and> \<bar>r - b\<bar> \<le> 9 \<longrightarrow> is_grayscale (r, g, b) default_threshold) \<and>
   (\<bar>r - g\<bar> \<ge> 10 \<or> \<bar>g - b\<bar> \<ge> 10 \<or> \<bar>r - b\<bar> \<ge> 10 \<longrightarrow> \<not> is_grayscale (r, g, b) default_threshold)"
  by (auto simp: is_grayscale_def default_threshold_def)

theorem is_grayscale_default_witness:
  "is_grayscale (100, 105, 109) default_threshold \<and>
   \<not> is_grayscale (100, 110, 105) default_threshold"
  using is_grayscale_default [of 100 105 109] is_grayscale_default [of 100 110 105]
  by simp

subsection \<open>The buckets in closed form\<close>

lemma categorize_loop_buckets:
  "categorize_loop c colors =
     \<lparr>primary = primary c @ take (2 - length (primary c)) (filter vivid colors),
      neutral = neutral c @ filter (\<lambda>rgb. \<not> vivid rgb) colors,
      accent = accent c @ drop (2 - length (primary c)) (filter vivid colors)\<rparr>"
proof (induction colors arbitrary: c)
  case Nil
  show ?case by simp
next
  case (Cons rgb colors)
  show ?case
  proof (cases "vivid rgb")
    case True
    show ?thesis
    proof (cases "length (primary c) < 2")
      case True
      with \<open>vivid rgb\<close> have s: "categorize_step c rgb = c\<lparr>primary := primary c @ [rgb]\<rparr>"
        by (simp add: categorize_step_def vivid_def)
      from True obtain k
        where k: "2 - length (primary c) = Suc k" "2 - Suc (length (primary c)) = k"
        by (cases "2 - length (primary c)") auto
      show ?thesis using \<open>vivid rgb\<close> k by (simp add: Cons.IH s)
    next
      case False
      with \<open>vivid rgb\<close> have s: "categorize_step c rgb = c\<lparr>accent := accent c @ [rgb]\<rparr>"
        by (simp add: categorize_step_def vivid_def)
      from False have "2 - length (primary c) = 0" by simp
      then show ?thesis using \<open>vivid rgb\<close> by (simp add: Cons.IH s)
    qed
  next
    case False
    then have s: "categorize_step c rgb = c\<lparr>neutral := neutral c @ [rgb]\<rparr>"
      by (auto simp add: categorize_step_def vivid_def)
    show ?thesis using False by (simp add: Cons.IH s)
  qed
qed

lemma categorize_colors_buckets:
  "categorize_colors colors =
     \<lparr>primary = take 2 (filter vivid colors),
      neutral = filter (\<lambda>rgb. \<not> vivid rgb) colors,
      accent = drop 2 (filter vivid colors)\<rparr>"
  by (simp add: categorize_colors_def categorize_loop_buckets)

lemma categorize_loop_append:
  "categorize_loop c (xs @ ys) = categorize_loop (categorize_loop c xs) ys"
  by (induction xs arbitrary: c) simp_all

subsection \<open>Exactness of the saturation test on 8-bit channels\<close>

lemma ratio_gap:
  fixes M m :: int
  assumes "0 < M" "M \<le> 255" "7 * M \<noteq> 10 * m"
  shows "1 / 2550 \<le> \<bar>real_of_int (M - m) / real_of_int M - 3 / 10\<bar>"
proof -
  have M: "0 < real_of_int M" using assms by simp
  have e: "real_of_int (M - m) / real_of_int M - 3 / 10 =
      real_of_int (7 * M - 10 * m) / (10 * real_of_int M)"
    using M by (simp add: field_simps)
  from assms(3) have "1 \<le> \<bar>7 * M - 10 * m\<bar>" by linarith
  then have "1 \<le> \<bar>real_of_int (7 * M - 10 * m)\<bar>"
    by (metis of_int_1_le_iff of_int_abs)
  moreover have "10 * real_of_int M \<le> 2550" using assms(2) by simp
  ultimately have "1 / 2550 \<le> \<bar>real_of_int (7 * M - 10 * m)\<bar> / (10 * real_of_int M)"
    using M by (simp add: field_simps)
  then show ?thesis using M by (simp add: e del: of_int_diff of_int_mult)
qed

lemma saturation_gap:
  assumes "0 \<le> r" "r \<le> 255" "0 \<le> g" "g \<le> 255" "0 \<le> b" "b \<le> 255"
  shows "saturation (r, g, b) = 3 / 10 \<or> 1 / 2550 \<le> \<bar>saturation (r, g, b) - 3 / 10\<bar>"
proof (cases "0 < max r (max g b)")
  case False
  then show ?thesis by (simp add: saturation_def)
next
  case True
  define M where "M = max r (max g b)"
  define m where "m = min r (min g b)"
  have s: "saturation (r, g, b) = real_of_int (M - m) / real_of_int M"
    using True by (simp add: saturation_def M_def m_def Let_def)
  have M: "0 < M" "M \<le> 255" using True assms by (auto simp: M_def)
  show ?thesis
  proof (cases "7 * M = 10 * m")
    case True
    from arg_cong [OF True, of real_of_int] have "7 * real_of_int M = 10 * real_of_int m"
      by simp
    then show ?thesis using M by (simp add: s field_simps)
  next
    case False
    from ratio_gap [OF M False] show ?thesis unfolding s by blast
  qed
qed

subsection \<open>The cap on the primary bucket\<close>

text \<open>
  C1, as stated, fails: five colours of saturation 1 that pass the grayscale test of line 91
  (all pairwise differences below 10) never reach the saturation test, and all five land in
  \<open>neutral\<close>.
\<close>

theorem primary_cap_five_counterexample:
  "saturation (9, 0, 0) > 0.3 \<and> saturation (0, 9, 0) > 0.3 \<and> saturation (0, 0, 9) > 0.3 \<and>
   saturation (9, 9, 0) > 0.3 \<and> saturation (0, 9, 9) > 0.3 \<and>
   length [(9, 0, 0), (0, 9, 0), (0, 0, 9), (9, 9, 0), (0, 9, 9 :: int)] = 5 \<and>
   categorize_colors [(9, 0, 0), (0, 9, 0), (0, 0, 9), (9, 9, 0), (0, 9, 9)] =
     \<lparr>primary = [],
      neutral = [(9, 0, 0), (0, 9, 0), (0, 0, 9), (9, 9, 0), (0, 9, 9)],
      accent = []\<rparr>"
  by (simp add: categorize_colors_def categorize_step_def is_grayscale_def
      default_threshold_def saturation_def)

text \<open>
  C1, amended. For every sequence of exactly 5 colours, each of them not grayscale (at the
  default threshold) and of saturation strictly greater than 0.3, \<open>categorize_colors\<close> places
  exactly the first 2 colours into \<open>primary\<close> and the remaining 3 into \<open>accent\<close>; \<open>neutral\<close>
  stays empty.
\<close>

theorem primary_cap_five:
  assumes "length colors = 5"
    and "\<forall>rgb \<in> set colors. \<not> is_grayscale rgb default_threshold \<and> saturation rgb > 0.3"
  shows "categorize_colors colors =
           \<lparr>primary = take 2 colors, neutral = [], accent = drop 2 colors\<rparr> \<and>
         length (primary (categorize_colors colors)) = 2 \<and>
         length (accent (categorize_colors colors)) = 3"
proof -
  from assms(2) have "\<forall>rgb \<in> set colors. vivid rgb" by (simp add: vivid_def)
  then have "filter vivid colors = colors" "filter (\<lambda>rgb. \<not> vivid rgb) colors = []"
    by (simp_all add: filter_id_conv filter_empty_conv)
  then show ?thesis using assms(1) by (simp add: categorize_colors_buckets)
qed

theorem primary_cap_five_witness:
  "categorize_colors [(200, 50, 50), (50, 200, 50), (50, 50, 200), (200, 200, 50), (50, 200, 200)] =
     \<lparr>primary = [(200, 50, 50), (50, 200, 50)], neutral = [],
      accent = [(50, 50, 200), (200, 200, 50), (50, 200, 200)]\<rparr> \<and>
   length (primary (categorize_colors
     [(200, 50, 50), (50, 200, 50), (50, 50, 200), (200, 200, 50), (50, 200, 200)])) = 2 \<and>
   length (accent (categorize_colors
     [(200, 50, 50), (50, 200, 50), (50, 50, 200), (200, 200, 50), (50, 200, 200)])) = 3"
proof -
  let ?cs = "[(200, 50, 50), (50, 200, 50), (50, 50, 200), (200, 200, 50), (50, 200, 200 :: int)]"
  have l: "length ?cs = 5" by simp
  have v: "\<forall>rgb \<in> set ?cs. \<not> is_grayscale rgb default_threshold \<and> saturation rgb > 0.3"
    by (simp add: is_grayscale_def default_threshold_def saturation_def)
  from primary_cap_five [OF l v] show ?thesis by simp
qed

text \<open>
  C2. The primary bucket never holds more than 2 colours, and a colour that is not grayscale
  and has saturation above 0.3, met when the colours before it have already put 2 colours into
  \<open>primary\<close>, is appended to \<open>accent\<close> (and to nothing else), where it stays until the end.
\<close>

theorem primary_at_most_two:
  "length (primary (categorize_colors colors)) \<le> 2 \<and>
   (colors = pre @ rgb # post \<and> \<not> is_grayscale rgb default_threshold \<and> saturation rgb > 0.3 \<and>
    length (primary (categorize_colors pre)) = 2 \<longrightarrow>
      categorize_colors (pre @ [rgb]) =
        (categorize_colors pre)\<lparr>accent := accent (categorize_colors pre) @ [rgb]\<rparr> \<and>
      take (Suc (length (accent (categorize_colors pre)))) (accent (categorize_colors colors)) =
        accent (categorize_colors pre) @ [rgb] \<and>
      primary (categorize_colors colors) = primary (categorize_colors pre))"
proof (intro conjI impI)
  show "length (primary (categorize_colors colors)) \<le> 2"
    by (simp add: categorize_colors_buckets)
next
  assume a: "colors = pre @ rgb # post \<and> \<not> is_grayscale rgb default_threshold \<and>
    saturation rgb > 0.3 \<and> length (primary (categorize_colors pre)) = 2"
  then have v: "vivid rgb" by (simp add: vivid_def)
  from a have two: "2 \<le> length (filter vivid pre)"
    by (simp add: categorize_colors_buckets min_def split: if_splits)
  show "categorize_colors (pre @ [rgb]) =
      (categorize_colors pre)\<lparr>accent := accent (categorize_colors pre) @ [rgb]\<rparr>"
    using a by (simp add: categorize_colors_def categorize_loop_append categorize_step_def)
  have "accent (categorize_colors colors) =
      drop 2 (filter vivid pre) @ rgb # filter vivid post"
    using a v two by (simp add: categorize_colors_buckets)
  moreover have "accent (categorize_colors pre) = drop 2 (filter vivid pre)"
    by (simp add: categorize_colors_buckets)
  ultimately show "take (Suc (length (accent (categorize_colors pre))))
      (accent (categorize_colors colors)) = accent (categorize_colors pre) @ [rgb]"
    by simp
  show "primary (categorize_colors colors) = primary (categorize_colors pre)"
    using a v two by (simp add: categorize_colors_buckets)
qed

theorem primary_at_most_two_witness:
  "length (primary (categorize_colors
      [(200, 50, 50), (50, 200, 50), (50, 50, 200), (240, 240, 240)])) \<le> 2 \<and>
   categorize_colors ([(200, 50, 50), (50, 200, 50)] @ [(50, 50, 200)]) =
     \<lparr>primary = [(200, 50, 50), (50, 200, 50)], neutral = [], accent = [(50, 50, 200)]\<rparr> \<and>
   accent (categorize_colors [(200, 50, 50), (50, 200, 50), (50, 50, 200), (240, 240, 240)]) =
     [(50, 50, 200)]"
proof -
  let ?pre = "[(200, 50, 50), (50, 200, 50 :: int)]"
  let ?cs = "[(200, 50, 50), (50, 200, 50), (50, 50, 200), (240, 240, 240 :: int)]"
  have pre: "categorize_colors ?pre =
      \<lparr>primary = [(200, 50, 50), (50, 200, 50)], neutral = [], accent = []\<rparr>"
    by (simp add: categorize_colors_def categorize_step_def is_grayscale_def
        default_threshold_def saturation_def)
  have h: "?cs = ?pre @ (50, 50, 200) # [(240, 240, 240)] \<and>
      \<not> is_grayscale (50, 50, 200) default_threshold \<and> saturation (50, 50, 200) > 0.3 \<and>
      length (primary (categorize_colors ?pre)) = 2"
    by (simp add: pre) (simp add: is_grayscale_def default_threshold_def saturation_def)
  have full: "accent (categorize_colors ?cs) = [(50, 50, 200)]"
    by (simp add: categorize_colors_def categorize_step_def is_grayscale_def
        default_threshold_def saturation_def)
  from primary_at_most_two [of ?cs ?pre "(50, 50, 200)" "[(240, 240, 240)]"] h
  show ?thesis by (simp add: pre full)
qed

subsection \<open>Every colour lands in exactly one bucket\<close>

text \<open>
  C3. \<open>categorize_colors\<close> is total (the only division is guarded by \<open>max_val > 0\<close>, and no
  branch of the loop raises; the division itself is exact here), the three bucket lengths add up to the length of the input, and
  the three buckets together hold exactly the occurrences of the input colours: each
  occurrence is in one bucket and in no other.
\<close>

theorem every_color_in_one_bucket:
  "length (primary (categorize_colors colors)) + length (neutral (categorize_colors colors)) +
     length (accent (categorize_colors colors)) = length colors \<and>
   mset (primary (categorize_colors colors)) + mset (neutral (categorize_colors colors)) +
     mset (accent (categorize_colors colors)) = mset colors"
proof -
  have m: "mset (take 2 (filter vivid colors)) + mset (drop 2 (filter vivid colors)) =
      mset (filter vivid colors)"
    by (metis append_take_drop_id mset_append)
  have "mset (filter vivid colors) + mset (filter (\<lambda>rgb. \<not> vivid rgb) colors) = mset colors"
    by simp
  with m have "mset (take 2 (filter vivid colors)) + mset (filter (\<lambda>rgb. \<not> vivid rgb) colors) +
      mset (drop 2 (filter vivid colors)) = mset colors"
    by (simp add: ac_simps)
  moreover from this have "length (take 2 (filter vivid colors)) +
      length (filter (\<lambda>rgb. \<not> vivid rgb) colors) + length (drop 2 (filter vivid colors)) =
      length colors"
    by (metis size_mset size_union)
  ultimately show ?thesis by (simp only: categorize_colors_buckets palette.simps)
qed

subsection \<open>Colours whose largest channel is 0\<close>

text \<open>
  C5. For a colour whose largest channel is 0 the saturation of lines 96-98 is 0 (the
  division is not evaluated), the loop body appends the colour to \<open>neutral\<close> whatever the state,
  and so \<open>categorize_colors\<close> puts every occurrence of it into \<open>neutral\<close> and none into
  \<open>primary\<close> or \<open>accent\<close>.
\<close>

theorem max_channel_zero_neutral:
  assumes "max r (max g b) = 0"
  shows "saturation (r, g, b) = 0 \<and>
         categorize_step c (r, g, b) = c\<lparr>neutral := neutral c @ [(r, g, b)]\<rparr> \<and>
         categorize_colors [(r, g, b)] = \<lparr>primary = [], neutral = [(r, g, b)], accent = []\<rparr> \<and>
         (r, g, b) \<notin> set (primary (categorize_colors colors)) \<and>
         (r, g, b) \<notin> set (accent (categorize_colors colors)) \<and>
         count_list (neutral (categorize_colors colors)) (r, g, b) = count_list colors (r, g, b)"
proof -
  from assms have s: "saturation (r, g, b) = 0" by (simp add: saturation_def)
  then have nv: "\<not> vivid (r, g, b)" by (simp add: vivid_def)
  have step: "categorize_step c (r, g, b) = c\<lparr>neutral := neutral c @ [(r, g, b)]\<rparr>" for c
    using s by (simp add: categorize_step_def)
  have "(r, g, b) \<notin> set (filter vivid colors)" using nv by simp
  then have out: "(r, g, b) \<notin> set (take 2 (filter vivid colors))"
    "(r, g, b) \<notin> set (drop 2 (filter vivid colors))"
    by (metis in_set_takeD, metis in_set_dropD)
  have cnt: "count_list (filter (\<lambda>rgb. \<not> vivid rgb) colors) (r, g, b) = count_list colors (r, g, b)"
    using nv by (induction colors) auto
  have one: "categorize_colors [(r, g, b)] = \<lparr>primary = [], neutral = [(r, g, b)], accent = []\<rparr>"
    by (simp add: categorize_colors_def step)
  have "(r, g, b) \<notin> set (primary (categorize_colors colors))"
    "(r, g, b) \<notin> set (accent (categorize_colors colors))"
    "count_list (neutral (categorize_colors colors)) (r, g, b) = count_list colors (r, g, b)"
    using out cnt unfolding categorize_colors_buckets by simp_all
  with s step one show ?thesis by blast
qed

theorem max_channel_zero_neutral_witness:
  "saturation (0, 0, 0) = 0 \<and>
   categorize_colors [(0, 0, 0)] = \<lparr>primary = [], neutral = [(0, 0, 0)], accent = []\<rparr> \<and>
   (0, 0, 0) \<notin> set (primary (categorize_colors [(200, 50, 50), (0, 0, 0)])) \<and>
   (0, 0, 0) \<notin> set (accent (categorize_colors [(200, 50, 50), (0, 0, 0)])) \<and>
   count_list (neutral (categorize_colors [(200, 50, 50), (0, 0, 0)])) (0, 0, 0) = 1"
proof -
  have h: "max (0::int) (max 0 0) = 0" by simp
  from max_channel_zero_neutral [OF h, of _ "[(200, 50, 50), (0, 0, 0)]"]
  show ?thesis by simp
qed

subsection \<open>Determinism\<close>

lemma loop_body_step: "loop_body c rgb c' \<longleftrightarrow> c' = categorize_step c rgb"
  by (auto simp: categorize_step_def loop_body.simps)

lemma runs_loop: "runs c colors c' \<longleftrightarrow> c' = categorize_loop c colors"
proof (induction colors arbitrary: c c')
  case Nil
  show ?case by (auto intro: runs.intros elim: runs.cases)
next
  case (Cons rgb colors)
  show ?case
  proof
    assume "runs c (rgb # colors) c'"
    then obtain d where "loop_body c rgb d" "runs d colors c'"
      by (auto elim: runs.cases)
    then show "c' = categorize_loop c (rgb # colors)"
      by (simp add: loop_body_step Cons.IH)
  next
    assume "c' = categorize_loop c (rgb # colors)"
    then have "runs (categorize_step c rgb) colors c'" by (simp add: Cons.IH)
    moreover have "loop_body c rgb (categorize_step c rgb)" by (simp add: loop_body_step)
    ultimately show "runs c (rgb # colors) c'" by (rule runs_cons [rotated])
  qed
qed

text \<open>
  C7. Two runs of the loop of \<open>categorize_colors\<close> on the same sequence, both started from
  the three empty lists of lines 84-88, end with the same primary, neutral and accent lists
  (the same colours in the same order): the result is the value of the function
  \<open>categorize_colors\<close>.
\<close>

theorem categorize_deterministic:
  assumes "runs \<lparr>primary = [], neutral = [], accent = []\<rparr> colors c"
    and "runs \<lparr>primary = [], neutral = [], accent = []\<rparr> colors c'"
  shows "primary c = primary c' \<and> neutral c = neutral c' \<and> accent c = accent c' \<and>
         c = categorize_colors colors"
  using assms by (simp add: runs_loop categorize_colors_def)

theorem categorize_deterministic_witness:
  "runs \<lparr>primary = [], neutral = [], accent = []\<rparr> [(200, 50, 50), (240, 240, 240)]
     (categorize_colors [(200, 50, 50), (240, 240, 240)]) \<and>
   runs \<lparr>primary = [], neutral = [], accent = []\<rparr> [(200, 50, 50), (240, 240, 240)]
     \<lparr>primary = [(200, 50, 50)], neutral = [(240, 240, 240)], accent = []\<rparr> \<and>
   categorize_colors [(200, 50, 50), (240, 240, 240)] =
     \<lparr>primary = [(200, 50, 50)], neutral = [(240, 240, 240)], accent = []\<rparr>"
proof -
  let ?e = "\<lparr>primary = [], neutral = [], accent = []\<rparr>"
  let ?cs = "[(200, 50, 50), (240, 240, 240 :: int)]"
  let ?p = "\<lparr>primary = [(200, 50, 50)], neutral = [(240, 240, 240)], accent = []\<rparr>"
  have h1: "runs ?e ?cs (categorize_colors ?cs)"
    by (simp add: runs_loop categorize_colors_def)
  have b1: "loop_body ?e (200, 50, 50) \<lparr>primary = [(200, 50, 50)], neutral = [], accent = []\<rparr>"
    using to_primary [of "(200, 50, 50)" ?e]
    by (simp add: is_grayscale_def default_threshold_def saturation_def)
  have b2: "loop_body \<lparr>primary = [(200, 50, 50)], neutral = [], accent = []\<rparr> (240, 240, 240) ?p"
    using gray [of "(240, 240, 240)" "\<lparr>primary = [(200, 50, 50)], neutral = [], accent = []\<rparr>"]
    by (simp add: is_grayscale_def default_threshold_def)
  have h2: "runs ?e ?cs ?p"
    by (rule runs_cons [OF b1 runs_cons [OF b2 runs_nil]])
  from categorize_deterministic [OF h2 h1] h1 h2 show ?thesis by simp
qed

subsection \<open>Luminance\<close>

lemma powr_12_5_pow5:
  fixes x :: real
  assumes "0 < x"
  shows "(x powr (12 / 5)) ^ 5 = x ^ 12"
proof -
  have "(x powr (12 / 5)) ^ 5 = (x powr (12 / 5)) powr 5"
    by (simp only: powr_numeral [OF powr_ge_zero])
  also have "\<dots> = x powr 12" by (simp only: powr_powr) simp
  also have "\<dots> = x ^ 12" using assms by simp
  finally show ?thesis .
qed

lemma less_powr_12_5:
  fixes a x :: real
  assumes "0 \<le> a" "0 < x" "a ^ 5 < x ^ 12"
  shows "a < x powr (12 / 5)"
proof -
  from assms(3) have "a ^ 5 < (x powr (12 / 5)) ^ 5"
    by (simp only: powr_12_5_pow5 [OF assms(2)])
  then show ?thesis by (rule power_less_imp_less_base) simp
qed

lemma powr_12_5_less:
  fixes a x :: real
  assumes "0 \<le> a" "0 < x" "x ^ 12 < a ^ 5"
  shows "x powr (12 / 5) < a"
proof -
  from assms(3) have "(x powr (12 / 5)) ^ 5 < a ^ 5"
    by (simp only: powr_12_5_pow5 [OF assms(2)])
  then show ?thesis using assms(1) by (rule power_less_imp_less_base)
qed

lemma threshold_int: "real_of_int v / 255 \<le> 0.03928 \<longleftrightarrow> v \<le> 10"
proof
  assume "real_of_int v / 255 \<le> 0.03928"
  then have "real_of_int v < 11" by simp
  then show "v \<le> 10" by linarith
next
  assume "v \<le> 10"
  then have "real_of_int v \<le> 10" by simp
  then show "real_of_int v / 255 \<le> 0.03928" by simp
qed

lemma gray_luminance: "get_luminance (v, v, v) = linearize (real_of_int v / 255)"
  by (simp add: get_luminance_def Let_def algebra_simps)

lemma junction: "linearize (10 / 255) < linearize (11 / 255)"
proof -
  have "(10 / 255 / 12.92 :: real) < ((11 / 255 + 0.055) / 1.055) powr (12 / 5)"
    by (rule less_powr_12_5) (simp_all add: power_divide)
  then show ?thesis by (simp add: linearize_def)
qed

lemma linearize_grid_mono:
  assumes "0 \<le> v1" "v1 < v2"
  shows "linearize (real_of_int v1 / 255) < linearize (real_of_int v2 / 255)"
proof -
  consider "v2 \<le> 10" | "v1 \<le> 10" "10 < v2" | "10 < v1" by linarith
  then show ?thesis
  proof cases
    case 1
    with assms show ?thesis by (simp add: linearize_def threshold_int)
  next
    case 2
    have "linearize (real_of_int v1 / 255) \<le> linearize (10 / 255)"
      using 2(1) by (simp add: linearize_def threshold_int)
    also note junction
    also have "linearize (11 / 255) \<le> linearize (real_of_int v2 / 255)"
    proof -
      from 2(2) have "11 \<le> v2" by simp
      then have "(11::real) \<le> real_of_int v2" by linarith
      then have "((11 / 255 + 0.055) / 1.055 :: real) \<le> (real_of_int v2 / 255 + 0.055) / 1.055"
        by (simp add: field_simps)
      then have "((11 / 255 + 0.055) / 1.055 :: real) powr 2.4 \<le> ((real_of_int v2 / 255 + 0.055) / 1.055) powr 2.4"
        by (intro powr_mono2) simp_all
      moreover have "\<not> real_of_int v2 / 255 \<le> 0.03928" using 2(2) by (simp only: threshold_int)
      ultimately show ?thesis by (simp add: linearize_def)
    qed
    finally show ?thesis .
  next
    case 3
    with assms have "10 < v2" by simp
    have "0 \<le> (real_of_int v1 / 255 + 0.055) / 1.055" using assms(1) by simp
    moreover have "(real_of_int v1 / 255 + 0.055) / 1.055 < (real_of_int v2 / 255 + 0.055) / 1.055"
      using assms(2) by (simp add: field_simps)
    ultimately have "((real_of_int v1 / 255 + 0.055) / 1.055) powr 2.4 < ((real_of_int v2 / 255 + 0.055) / 1.055) powr 2.4"
      by (intro powr_less_mono2) simp_all
    moreover have "\<not> real_of_int v1 / 255 \<le> 0.03928" "\<not> real_of_int v2 / 255 \<le> 0.03928"
      using 3 \<open>10 < v2\<close> by (simp_all only: threshold_int)
    ultimately show ?thesis by (simp add: linearize_def)
  qed
qed


text \<open>
  C8. On the gray ramp the luminance is strictly increasing: for integers
  \<open>0 \<le> v1 < v2 \<le> 255\<close>, the luminance of \<open>(v1, v1, v1)\<close> is below that of \<open>(v2, v2, v2)\<close>. The
  statement is about the piecewise formula of lines 27-31 over the real numbers; the channels
  up to 10 take the linear branch, those from 11 on the power branch, and the step from 10 to
  11 goes up.
\<close>

theorem gray_ramp_increasing:
  assumes "0 \<le> v1" "v1 < v2" "v2 \<le> 255"
  shows "get_luminance (v1, v1, v1) < get_luminance (v2, v2, v2)"
  using linearize_grid_mono [OF assms(1,2)] by (simp only: gray_luminance)

theorem gray_ramp_increasing_witness:
  "get_luminance (10, 10, 10) < get_luminance (11, 11, 11) \<and>
   get_luminance (0, 0, 0) < get_luminance (255, 255, 255)"
  using gray_ramp_increasing [of 10 11] gray_ramp_increasing [of 0 255] by simp

subsection \<open>The neutral lines of the CSS block\<close>

lemma luminance_5: "get_luminance (5, 5, 5) < 0.3"
  by (simp add: gray_luminance linearize_def)

lemma luminance_180: "0.3 < get_luminance (180, 180, 180)" "get_luminance (180, 180, 180) < 0.7"
proof -
  have l: "get_luminance (180, 180, 180) = ((180 / 255 + 0.055) / 1.055) powr (12 / 5)"
    by (simp add: gray_luminance linearize_def)
  show "0.3 < get_luminance (180, 180, 180)"
    unfolding l by (rule less_powr_12_5) (simp_all add: power_divide)
  show "get_luminance (180, 180, 180) < 0.7"
    unfolding l by (rule powr_12_5_less) (simp_all add: power_divide)
qed

lemma luminance_240: "0.7 < get_luminance (240, 240, 240)"
proof -
  have l: "get_luminance (240, 240, 240) = ((240 / 255 + 0.055) / 1.055) powr (12 / 5)"
    by (simp add: gray_luminance linearize_def)
  show ?thesis unfolding l by (rule less_powr_12_5) (simp_all add: power_divide)
qed

lemma sorted_three_grays:
  "sort_key get_luminance [(240, 240, 240), (5, 5, 5), (180, 180, 180)] =
     [(5, 5, 5), (180, 180, 180), (240, 240, 240)]"
proof -
  have "get_luminance (5, 5, 5) \<le> get_luminance (180, 180, 180)"
    "\<not> get_luminance (240, 240, 240) \<le> get_luminance (5, 5, 5)"
    "\<not> get_luminance (240, 240, 240) \<le> get_luminance (180, 180, 180)"
    using luminance_5 luminance_180 luminance_240 by simp_all
  then show ?thesis by simp
qed

lemma sorted_two_grays:
  "sort_key get_luminance [(240, 240, 240), (5, 5, 5)] = [(5, 5, 5), (240, 240, 240)]"
proof -
  have "\<not> get_luminance (240, 240, 240) \<le> get_luminance (5, 5, 5)"
    using luminance_5 luminance_240 by simp
  then show ?thesis by simp
qed

lemma length_css_vars:
  "length (css_vars p) = 3 + length (primary p) + length (neutral p) + length (accent p)"
  by (simp add: css_vars_def Let_def)

lemma css_vars_neutral_line:
  assumes "i < length (neutral p)"
  shows "css_vars p ! (2 + length (primary p) + i) =
    (let rgb = sort_key get_luminance (neutral p) ! i
     in ''  --color-'' @
        (if 0.7 < get_luminance rgb then ''light-''
         else if get_luminance rgb < 0.3 then ''dark-'' else ''neutral-'') @
        str_nat (Suc i) @ '': '' @ rgb_to_hex rgb @ '';'')"
proof -
  let ?ns = "sort_key get_luminance (neutral p)"
  have e: "enumerate (Suc 0) ?ns ! i = (Suc i, ?ns ! i)"
    using assms by (simp add: nth_enumerate_eq)
  have "css_vars p ! (2 + length (primary p) + i) =
      (\<lambda>(i, rgb).
           let hex_color = rgb_to_hex rgb;
               luminance = get_luminance rgb;
               name = (if luminance > 0.7 then ''light-'' @ str_nat i
                       else if luminance < 0.3 then ''dark-'' @ str_nat i
                       else ''neutral-'' @ str_nat i)
           in ''  --color-'' @ name @ '': '' @ hex_color @ '';'') (enumerate 1 ?ns ! i)"
    using assms by (simp add: css_vars_def Let_def nth_append)
  then show ?thesis by (simp add: e Let_def)
qed

lemma join_snoc: "join sep (xs @ [y]) = concat (map (\<lambda>x. x @ sep) xs) @ y"
  by (induction sep xs rule: join.induct) simp_all

lemma primary_lines_concat:
  "concat (map (\<lambda>x. x @ nl) (map (\<lambda>(i, rgb).
        let hex_color = rgb_to_hex rgb
        in ''  --color-primary-'' @ str_nat i @ '': '' @ hex_color @ '';'') xs)) =
   concat (map (\<lambda>(i, rgb).
        ''  --color-primary-'' @ str_nat i @ '': '' @ rgb_to_hex rgb @ '';'' @ nl) xs)"
  by (induction xs) (simp_all add: split_def Let_def)

lemma accent_lines_concat:
  "concat (map (\<lambda>x. x @ nl) (map (\<lambda>(i, rgb).
        let hex_color = rgb_to_hex rgb
        in ''  --color-accent-'' @ str_nat i @ '': '' @ hex_color @ '';'') xs)) =
   concat (map (\<lambda>(i, rgb).
        ''  --color-accent-'' @ str_nat i @ '': '' @ rgb_to_hex rgb @ '';'' @ nl) xs)"
  by (induction xs) (simp_all add: split_def Let_def)

lemma neutral_lines_concat:
  "concat (map (\<lambda>x. x @ nl) (map (\<lambda>(i, rgb).
           let hex_color = rgb_to_hex rgb;
               luminance = get_luminance rgb;
               name = (if luminance > 0.7 then ''light-'' @ str_nat i
                       else if luminance < 0.3 then ''dark-'' @ str_nat i
                       else ''neutral-'' @ str_nat i)
           in ''  --color-'' @ name @ '': '' @ hex_color @ '';'') xs)) =
   concat (map (\<lambda>(i, rgb).
          ''  --color-'' @
          (if 0.7 < get_luminance rgb then ''light-''
           else if get_luminance rgb < 0.3 then ''dark-'' else ''neutral-'') @
          str_nat i @ '': '' @ rgb_to_hex rgb @ '';'' @ nl) xs)"
  by (induction xs) (simp_all add: split_def Let_def)

lemma css_vars_split:
  "css_vars p =
     ([''/* Color Palette - Generated from screenshot */'', '':root {''] @
      map (\<lambda>(i, rgb).
        let hex_color = rgb_to_hex rgb
        in ''  --color-primary-'' @ str_nat i @ '': '' @ hex_color @ '';'')
       (enumerate 1 (primary p)) @
      map (\<lambda>(i, rgb).
           let hex_color = rgb_to_hex rgb;
               luminance = get_luminance rgb;
               name = (if luminance > 0.7 then ''light-'' @ str_nat i
                       else if luminance < 0.3 then ''dark-'' @ str_nat i
                       else ''neutral-'' @ str_nat i)
           in ''  --color-'' @ name @ '': '' @ hex_color @ '';'')
         (enumerate 1 (sort_key get_luminance (neutral p))) @
      map (\<lambda>(i, rgb).
        let hex_color = rgb_to_hex rgb
        in ''  --color-accent-'' @ str_nat i @ '': '' @ hex_color @ '';'')
       (enumerate 1 (accent p))) @
     [''}'' @ newline]"
  unfolding css_vars_def Let_def by (simp only: append_assoc)

lemma css_block_closed:
  "snd (generate_css_variables p) =
     ''/* Color Palette - Generated from screenshot */'' @ newline @
     '':root {'' @ newline @
     concat (map (\<lambda>(i, rgb).
          ''  --color-primary-'' @ str_nat i @ '': '' @ rgb_to_hex rgb @ '';'' @ newline)
        (enumerate 1 (primary p))) @
     concat (map (\<lambda>(i, rgb).
          ''  --color-'' @
          (if 0.7 < get_luminance rgb then ''light-''
           else if get_luminance rgb < 0.3 then ''dark-'' else ''neutral-'') @
          str_nat i @ '': '' @ rgb_to_hex rgb @ '';'' @ newline)
        (enumerate 1 (sort_key get_luminance (neutral p)))) @
     concat (map (\<lambda>(i, rgb).
          ''  --color-accent-'' @ str_nat i @ '': '' @ rgb_to_hex rgb @ '';'' @ newline)
        (enumerate 1 (accent p))) @
     ''}'' @ newline"
proof -
  have "snd (generate_css_variables p) = join newline (css_vars p)"
    by (simp add: generate_css_variables_def)
  also have "\<dots> = concat (map (\<lambda>x. x @ newline)
     ([''/* Color Palette - Generated from screenshot */'', '':root {''] @
      map (\<lambda>(i, rgb).
        let hex_color = rgb_to_hex rgb
        in ''  --color-primary-'' @ str_nat i @ '': '' @ hex_color @ '';'')
       (enumerate 1 (primary p)) @
      map (\<lambda>(i, rgb).
           let hex_color = rgb_to_hex rgb;
               luminance = get_luminance rgb;
               name = (if luminance > 0.7 then ''light-'' @ str_nat i
                       else if luminance < 0.3 then ''dark-'' @ str_nat i
                       else ''neutral-'' @ str_nat i)
           in ''  --color-'' @ name @ '': '' @ hex_color @ '';'')
         (enumerate 1 (sort_key get_luminance (neutral p))) @
      map (\<lambda>(i, rgb).
        let hex_color = rgb_to_hex rgb
        in ''  --color-accent-'' @ str_nat i @ '': '' @ hex_color @ '';'')
       (enumerate 1 (accent p)))) @ ''}'' @ newline"
    by (subst css_vars_split) (rule join_snoc)
  also have "\<dots> = ''/* Color Palette - Generated from screenshot */'' @ newline @
     '':root {'' @ newline @
     concat (map (\<lambda>(i, rgb).
          ''  --color-primary-'' @ str_nat i @ '': '' @ rgb_to_hex rgb @ '';'' @ newline)
        (enumerate 1 (primary p))) @
     concat (map (\<lambda>(i, rgb).
          ''  --color-'' @
          (if 0.7 < get_luminance rgb then ''light-''
           else if get_luminance rgb < 0.3 then ''dark-'' else ''neutral-'') @
          str_nat i @ '': '' @ rgb_to_hex rgb @ '';'' @ newline)
        (enumerate 1 (sort_key get_luminance (neutral p)))) @
     concat (map (\<lambda>(i, rgb).
          ''  --color-accent-'' @ str_nat i @ '': '' @ rgb_to_hex rgb @ '';'' @ newline)
        (enumerate 1 (accent p))) @
     ''}'' @ newline"
    by (simp only: map_append concat_append primary_lines_concat accent_lines_concat
        neutral_lines_concat list.map concat.simps append_Nil append_Nil2 append_assoc)
  finally show ?thesis .
qed

text \<open>
  C6. The CSS block is the text returned by \<open>generate_css_variables\<close>. It consists of the two
  header lines, the primary lines, the neutral lines, the accent lines and the closing brace,
  each followed by a newline. The neutral lines list the colours of the neutral bucket in
  ascending order of luminance, and the line at position \<open>N\<close> (counted from 1) in that order is
  named \<open>light-N\<close> when the luminance of its colour is above 0.7, \<open>dark-N\<close> when it is below
  0.3, and \<open>neutral-N\<close> otherwise. The same is stated for the list \<open>css_vars\<close> of the lines, by
  position.
\<close>

theorem neutral_lines_by_luminance:
  "sorted (map get_luminance (sort_key get_luminance (neutral p))) \<and>
   mset (sort_key get_luminance (neutral p)) = mset (neutral p) \<and>
   snd (generate_css_variables p) =
     ''/* Color Palette - Generated from screenshot */'' @ newline @
     '':root {'' @ newline @
     concat (map (\<lambda>(i, rgb).
          ''  --color-primary-'' @ str_nat i @ '': '' @ rgb_to_hex rgb @ '';'' @ newline)
        (enumerate 1 (primary p))) @
     concat (map (\<lambda>(i, rgb).
          ''  --color-'' @
          (if 0.7 < get_luminance rgb then ''light-''
           else if get_luminance rgb < 0.3 then ''dark-'' else ''neutral-'') @
          str_nat i @ '': '' @ rgb_to_hex rgb @ '';'' @ newline)
        (enumerate 1 (sort_key get_luminance (neutral p)))) @
     concat (map (\<lambda>(i, rgb).
          ''  --color-accent-'' @ str_nat i @ '': '' @ rgb_to_hex rgb @ '';'' @ newline)
        (enumerate 1 (accent p))) @
     ''}'' @ newline \<and>
   snd (generate_css_variables p) = join newline (css_vars p) \<and>
   length (css_vars p) = 3 + length (primary p) + length (neutral p) + length (accent p) \<and>
   (\<forall>i < length (neutral p).
      css_vars p ! (2 + length (primary p) + i) =
        (let rgb = sort_key get_luminance (neutral p) ! i
         in ''  --color-'' @
            (if 0.7 < get_luminance rgb then ''light-''
             else if get_luminance rgb < 0.3 then ''dark-'' else ''neutral-'') @
            str_nat (Suc i) @ '': '' @ rgb_to_hex rgb @ '';''))"
proof (intro conjI allI impI)
  show "sorted (map get_luminance (sort_key get_luminance (neutral p)))"
    by (rule sorted_sort_key)
  show "mset (sort_key get_luminance (neutral p)) = mset (neutral p)"
    by (rule mset_sort)
  show "snd (generate_css_variables p) =
     ''/* Color Palette - Generated from screenshot */'' @ newline @
     '':root {'' @ newline @
     concat (map (\<lambda>(i, rgb).
          ''  --color-primary-'' @ str_nat i @ '': '' @ rgb_to_hex rgb @ '';'' @ newline)
        (enumerate 1 (primary p))) @
     concat (map (\<lambda>(i, rgb).
          ''  --color-'' @
          (if 0.7 < get_luminance rgb then ''light-''
           else if get_luminance rgb < 0.3 then ''dark-'' else ''neutral-'') @
          str_nat i @ '': '' @ rgb_to_hex rgb @ '';'' @ newline)
        (enumerate 1 (sort_key get_luminance (neutral p)))) @
     concat (map (\<lambda>(i, rgb).
          ''  --color-accent-'' @ str_nat i @ '': '' @ rgb_to_hex rgb @ '';'' @ newline)
        (enumerate 1 (accent p))) @
     ''}'' @ newline"
    by (rule css_block_closed)
  show "snd (generate_css_variables p) = join newline (css_vars p)"
    by (simp add: generate_css_variables_def)
  show "length (css_vars p) = 3 + length (primary p) + length (neutral p) + length (accent p)"
    by (rule length_css_vars)
next
  fix i
  assume "i < length (neutral p)"
  then show "css_vars p ! (2 + length (primary p) + i) =
        (let rgb = sort_key get_luminance (neutral p) ! i
         in ''  --color-'' @
            (if 0.7 < get_luminance rgb then ''light-''
             else if get_luminance rgb < 0.3 then ''dark-'' else ''neutral-'') @
            str_nat (Suc i) @ '': '' @ rgb_to_hex rgb @ '';'')"
    by (rule css_vars_neutral_line)
qed

theorem neutral_lines_by_luminance_witness:
  "snd (generate_css_variables \<lparr>primary = [(200, 50, 50)],
      neutral = [(240, 240, 240), (5, 5, 5), (180, 180, 180)], accent = []\<rparr>) =
     ''/* Color Palette - Generated from screenshot */'' @ [CHR 0x0A] @
     '':root {'' @ [CHR 0x0A] @
     ''  --color-primary-1: #c83232;'' @ [CHR 0x0A] @
     ''  --color-dark-1: #050505;'' @ [CHR 0x0A] @
     ''  --color-neutral-2: #b4b4b4;'' @ [CHR 0x0A] @
     ''  --color-light-3: #f0f0f0;'' @ [CHR 0x0A] @
     ''}'' @ [CHR 0x0A] \<and>
   css_vars \<lparr>primary = [(200, 50, 50)],
      neutral = [(240, 240, 240), (5, 5, 5), (180, 180, 180)], accent = []\<rparr> ! 3 =
     ''  --color-dark-1: #050505;'' \<and>
   css_vars \<lparr>primary = [(200, 50, 50)],
      neutral = [(240, 240, 240), (5, 5, 5), (180, 180, 180)], accent = []\<rparr> ! 4 =
     ''  --color-neutral-2: #b4b4b4;'' \<and>
   css_vars \<lparr>primary = [(200, 50, 50)],
      neutral = [(240, 240, 240), (5, 5, 5), (180, 180, 180)], accent = []\<rparr> ! 5 =
     ''  --color-light-3: #f0f0f0;'' \<and>
   length (css_vars \<lparr>primary = [(200, 50, 50)],
      neutral = [(240, 240, 240), (5, 5, 5), (180, 180, 180)], accent = []\<rparr>) = 7"
proof -
  let ?p = "\<lparr>primary = [(200, 50, 50)],
      neutral = [(240, 240, 240), (5, 5, 5), (180, 180, 180)], accent = []\<rparr>"
  have hex: "rgb_to_hex (200, 50, 50) = ''#c83232''" "rgb_to_hex (5, 5, 5) = ''#050505''"
    "rgb_to_hex (180, 180, 180) = ''#b4b4b4''" "rgb_to_hex (240, 240, 240) = ''#f0f0f0''"
    by (simp_all add: rgb_to_hex_def format_02x_def to_hex.simps hex_digit_def)
  have dec: "str_nat (Suc 0) = ''1''" "str_nat (Suc (Suc 0)) = ''2''"
    "str_nat (Suc (Suc (Suc 0))) = ''3''" "str_nat 1 = ''1''" "str_nat 2 = ''2''"
    "str_nat 3 = ''3''"
    by (simp_all add: str_nat.simps dec_digit_def)
  have lum: "\<not> 0.7 < get_luminance (5, 5, 5)" "get_luminance (5, 5, 5) < 0.3"
    "\<not> 0.7 < get_luminance (180, 180, 180)" "\<not> get_luminance (180, 180, 180) < 0.3"
    "0.7 < get_luminance (240, 240, 240)"
    using luminance_5 luminance_180 luminance_240 by simp_all
  note t = neutral_lines_by_luminance [of ?p]
  from t have n: "\<forall>i < 3. css_vars ?p ! (3 + i) =
        (let rgb = [(5, 5, 5), (180, 180, 180), (240, 240, 240)] ! i
         in ''  --color-'' @
            (if 0.7 < get_luminance rgb then ''light-''
             else if get_luminance rgb < 0.3 then ''dark-'' else ''neutral-'') @
            str_nat (Suc i) @ '': '' @ rgb_to_hex rgb @ '';'')"
    and len: "length (css_vars ?p) = 7"
    by (simp_all add: sorted_three_grays del: sort_key_simps)
  from n have l: "css_vars ?p ! 3 = ''  --color-dark-1: #050505;''"
    "css_vars ?p ! 4 = ''  --color-neutral-2: #b4b4b4;''"
    "css_vars ?p ! 5 = ''  --color-light-3: #f0f0f0;''"
    using lum hex dec by (simp_all add: eval_nat_numeral del: sort_key_simps)
  from t have "snd (generate_css_variables ?p) =
     ''/* Color Palette - Generated from screenshot */'' @ newline @
     '':root {'' @ newline @
     concat (map (\<lambda>(i, rgb).
          ''  --color-primary-'' @ str_nat i @ '': '' @ rgb_to_hex rgb @ '';'' @ newline)
        (enumerate 1 (primary ?p))) @
     concat (map (\<lambda>(i, rgb).
          ''  --color-'' @
          (if 0.7 < get_luminance rgb then ''light-''
           else if get_luminance rgb < 0.3 then ''dark-'' else ''neutral-'') @
          str_nat i @ '': '' @ rgb_to_hex rgb @ '';'' @ newline)
        (enumerate 1 (sort_key get_luminance (neutral ?p)))) @
     concat (map (\<lambda>(i, rgb).
          ''  --color-accent-'' @ str_nat i @ '': '' @ rgb_to_hex rgb @ '';'' @ newline)
        (enumerate 1 (accent ?p))) @
     ''}'' @ newline"
    by blast
  then have b: "snd (generate_css_variables ?p) =
     ''/* Color Palette - Generated from screenshot */'' @ [CHR 0x0A] @
     '':root {'' @ [CHR 0x0A] @
     ''  --color-primary-1: #c83232;'' @ [CHR 0x0A] @
     ''  --color-dark-1: #050505;'' @ [CHR 0x0A] @
     ''  --color-neutral-2: #b4b4b4;'' @ [CHR 0x0A] @
     ''  --color-light-3: #f0f0f0;'' @ [CHR 0x0A] @
     ''}'' @ [CHR 0x0A]"
    using lum by (simp add: sorted_three_grays hex dec newline_def del: sort_key_simps)
  from b l len show ?thesis by blast
qed

subsection \<open>The JSON file written by \<^verbatim>\<open>main\<close>\<close>

lemma py_replace_no_match:
  assumes "old \<noteq> []" "take (length old) (c # s) \<noteq> old"
  shows "py_replace old new (c # s) = c # py_replace old new s"
  using assms by (subst py_replace.simps) simp

lemma no_match_at_head:
  assumes "\<forall>us vs. c # rest \<noteq> us @ ''.css'' @ vs"
  shows "take (length ''.css'') ((c # rest) @ ''.css'') \<noteq> ''.css''"
proof
  assume t: "take (length ''.css'') ((c # rest) @ ''.css'') = ''.css''"
  consider "rest = []" | x where "rest = [x]" | x y where "rest = [x, y]"
    | x y z w where "rest = x # y # z # w"
    by (metis list.exhaust)
  then show False
  proof cases
    case 1
    with t show False by simp
  next
    case 2
    with t show False by simp
  next
    case 3
    with t show False by simp
  next
    case 4
    with t have "c # rest = [] @ ''.css'' @ w" by simp
    with assms show False by blast
  qed
qed

lemma json_path_of_css_path:
  assumes "\<forall>us vs. stem \<noteq> us @ ''.css'' @ vs"
  shows "py_replace ''.css'' ''.json'' (stem @ ''.css'') = stem @ ''.json''"
  using assms
proof (induction stem)
  case Nil
  show ?case by (simp add: py_replace.simps)
next
  case (Cons c rest)
  have "\<forall>us vs. rest \<noteq> us @ ''.css'' @ vs"
  proof (intro allI notI)
    fix us vs
    assume "rest = us @ ''.css'' @ vs"
    then have "c # rest = (c # us) @ ''.css'' @ vs" by simp
    with Cons.prems show False by blast
  qed
  then have ih: "py_replace ''.css'' ''.json'' (rest @ ''.css'') = rest @ ''.json''"
    by (rule Cons.IH)
  from no_match_at_head [OF Cons.prems] have "py_replace ''.css'' ''.json'' (c # rest @ ''.css'') =
      c # py_replace ''.css'' ''.json'' (rest @ ''.css'')"
    by (intro py_replace_no_match) simp_all
  with ih show ?case by simp
qed

lemma default_json_path: "py_replace ''.css'' ''.json'' ''color_palette.css'' = ''color_palette.json''"
  by (simp add: py_replace.simps)

lemma main_json_file:
  assumes "arg_json a" "extract_palette (arg_image a) (arg_num_colors a) = Inr (Some colors)"
  shows "snd (main extract_palette a fs) (py_replace ''.css'' ''.json'' (arg_output a)) =
     Some (Json [(''primary'', map rgb_to_hex (primary (categorize_colors colors))),
                 (''neutral'', map rgb_to_hex (neutral (categorize_colors colors))),
                 (''accent'', map rgb_to_hex (accent (categorize_colors colors))),
                 (''all_colors'', map rgb_to_hex colors)])"
  using assms by (simp add: main_def generate_css_variables_def Let_def)

text \<open>
  C9. The specification places the JSON beside the CSS file, under the same name with \<open>.json\<close>
  for the extension \<open>.css\<close>, whatever the output path. Line 218 computes the path with \<^verbatim>\<open>str.replace\<close>, which rewrites every
  occurrence of \<open>.css\<close> anywhere in the path and rewrites nothing when there is none. With the
  output path \<open>palette.txt\<close> the JSON path is \<open>palette.txt\<close> again: after the run the only file
  is \<open>palette.txt\<close>, it holds the JSON object, and the CSS text written at line 206 is gone.
  With \<open>site.css/palette.css\<close> the JSON goes to another directory, \<open>site.json/palette.json\<close>.
  (For a path \<open>stem.css\<close> whose stem has no \<open>.css\<close> the JSON path is \<open>stem.json\<close>, lemma
  \<open>json_path_of_css_path\<close>, and the object has the keys \<open>primary\<close>, \<open>neutral\<close>, \<open>accent\<close> and
  \<open>all_colors\<close> for every path, lemma \<open>main_json_file\<close>.)
\<close>

theorem json_replaces_css_file:
  "main (\<lambda>image n. Inr (Some [(200, 50, 50), (240, 240, 240)]))
     \<lparr>arg_image = ''shot.png'', arg_output = ''palette.txt'', arg_num_colors = 2,
      arg_json = True\<rparr> Map.empty =
     (Inr 0,
      [''palette.txt'' \<mapsto>
         Json [(''primary'', [''#c83232'']), (''neutral'', [''#f0f0f0'']), (''accent'', []),
               (''all_colors'', [''#c83232'', ''#f0f0f0''])]]) \<and>
   py_replace ''.css'' ''.json'' ''site.css/palette.css'' = ''site.json/palette.json''"
proof -
  have hex: "rgb_to_hex (200, 50, 50) = ''#c83232''" "rgb_to_hex (240, 240, 240) = ''#f0f0f0''"
    by (simp_all add: rgb_to_hex_def format_02x_def to_hex.simps hex_digit_def)
  have cat: "categorize_colors [(200, 50, 50), (240, 240, 240)] =
      \<lparr>primary = [(200, 50, 50)], neutral = [(240, 240, 240)], accent = []\<rparr>"
    by (simp add: categorize_colors_def categorize_step_def is_grayscale_def
        default_threshold_def saturation_def)
  have p: "py_replace ''.css'' ''.json'' ''palette.txt'' = ''palette.txt''"
    by (simp add: py_replace.simps)
  have q: "py_replace ''.css'' ''.json'' ''site.css/palette.css'' = ''site.json/palette.json''"
    by (simp add: py_replace.simps)
  show ?thesis
    by (simp add: main_def generate_css_variables_def Let_def cat hex p q)
qed

text \<open>
  C10. \<open>generate_css_variables\<close> leaves the dictionary as it was: the luminance order exists
  only in the new list \<open>neutrals\<close>. So the \<open>neutral\<close> array of the JSON object written by
  \<open>main\<close> lists the neutral bucket in the order of classification, which is the order of the
  input restricted to the colours that are grayscale or of saturation at most 0.3.
\<close>

theorem css_leaves_palette:
  "fst (generate_css_variables categorized) = categorized \<and>
   neutral (categorize_colors colors) = filter (\<lambda>rgb. \<not> vivid rgb) colors \<and>
   (arg_json a \<and> extract_palette (arg_image a) (arg_num_colors a) = Inr (Some colors) \<longrightarrow>
      snd (main extract_palette a fs) (py_replace ''.css'' ''.json'' (arg_output a)) =
        Some (Json [(''primary'', map rgb_to_hex (primary (categorize_colors colors))),
                    (''neutral'', map rgb_to_hex (neutral (categorize_colors colors))),
                    (''accent'', map rgb_to_hex (accent (categorize_colors colors))),
                    (''all_colors'', map rgb_to_hex colors)]))"
  by (simp add: main_json_file generate_css_variables_def categorize_colors_buckets)

theorem css_leaves_palette_witness:
  "snd (main (\<lambda>image n. Inr (Some [(240, 240, 240), (200, 50, 50), (5, 5, 5)]))
     \<lparr>arg_image = ''shot.png'', arg_output = ''palette.css'', arg_num_colors = 3,
      arg_json = True\<rparr> Map.empty) ''palette.json'' =
     Some (Json [(''primary'', [''#c83232'']), (''neutral'', [''#f0f0f0'', ''#050505'']),
                 (''accent'', []), (''all_colors'', [''#f0f0f0'', ''#c83232'', ''#050505''])]) \<and>
   neutral (categorize_colors [(240, 240, 240), (200, 50, 50), (5, 5, 5)]) =
     [(240, 240, 240), (5, 5, 5)] \<and>
   sort_key get_luminance (neutral (categorize_colors [(240, 240, 240), (200, 50, 50), (5, 5, 5)])) =
     [(5, 5, 5), (240, 240, 240)]"
proof -
  let ?cs = "[(240, 240, 240), (200, 50, 50), (5, 5, 5 :: int)]"
  let ?a = "\<lparr>arg_image = ''shot.png'', arg_output = ''palette.css'', arg_num_colors = 3,
      arg_json = True\<rparr>"
  let ?ex = "\<lambda>(image :: string) (n :: int). (Inr (Some ?cs) :: error + color list option)"
  have hex: "rgb_to_hex (200, 50, 50) = ''#c83232''" "rgb_to_hex (240, 240, 240) = ''#f0f0f0''"
    "rgb_to_hex (5, 5, 5) = ''#050505''"
    by (simp_all add: rgb_to_hex_def format_02x_def to_hex.simps hex_digit_def)
  have cat: "categorize_colors ?cs =
      \<lparr>primary = [(200, 50, 50)], neutral = [(240, 240, 240), (5, 5, 5)], accent = []\<rparr>"
    by (simp add: categorize_colors_def categorize_step_def is_grayscale_def
        default_threshold_def saturation_def)
  have p: "py_replace ''.css'' ''.json'' ''palette.css'' = ''palette.json''"
    by (simp add: py_replace.simps)
  have h: "arg_json ?a \<and> ?ex (arg_image ?a) (arg_num_colors ?a) = Inr (Some ?cs)"
    by simp
  from css_leaves_palette [of _ ?cs ?a ?ex Map.empty] h
  have "snd (main ?ex ?a Map.empty) (py_replace ''.css'' ''.json'' (arg_output ?a)) =
        Some (Json [(''primary'', map rgb_to_hex (primary (categorize_colors ?cs))),
                    (''neutral'', map rgb_to_hex (neutral (categorize_colors ?cs))),
                    (''accent'', map rgb_to_hex (accent (categorize_colors ?cs))),
                    (''all_colors'', map rgb_to_hex ?cs)])"
    by blast
  then show ?thesis by (simp add: cat hex p sorted_two_grays del: sort_key_simps)
qed

end
